theory Spec2Isabelle
  imports Complex_Main
begin

section \<open>JavaScript values of the form state\<close>

text \<open>
  The front end keeps the applicant's answers as JavaScript values: the text of an input
  element (a string), a number (after \<open>parseFloat\<close>, or restored from the document
  store), or nothing at all. A JavaScript number is modelled as a finite real or
  \<open>NaN\<close>; rounding errors of doubles and the infinities are not modelled.
\<close>

datatype number = Num real | NaN

datatype jsval =
    JSNumber number
  | JSString string
  | JSBoolean bool
  | JSUndefined
  | JSNull

text \<open>
  \<open>ToNumber\<close> of the language. The conversion of a string is the runtime's
  \<open>StringToNumber\<close>; it is a parameter \<open>sn\<close> of everything below.
\<close>

fun ToNumber :: "(string \<Rightarrow> number) \<Rightarrow> jsval \<Rightarrow> number" where
  "ToNumber sn (JSNumber n) = n"
| "ToNumber sn (JSString s) = sn s"
| "ToNumber sn (JSBoolean b) = (if b then Num 1 else Num 0)"
| "ToNumber sn JSUndefined = NaN"
| "ToNumber sn JSNull = Num 0"

text \<open>\<open>ToBoolean\<close>: what \<open>||\<close>, \<open>!\<close> and \<open>if\<close> test.\<close>

fun truthy :: "jsval \<Rightarrow> bool" where
  "truthy (JSNumber (Num r)) = (r \<noteq> 0)"
| "truthy (JSNumber NaN) = False"
| "truthy (JSString s) = (s \<noteq> [])"
| "truthy (JSBoolean b) = b"
| "truthy JSUndefined = False"
| "truthy JSNull = False"

text \<open>\<open>a || b\<close>\<close>

definition or_else :: "jsval \<Rightarrow> jsval \<Rightarrow> jsval" where
  "or_else a b = (if truthy a then a else b)"

text \<open>\<open>a > b\<close> on numbers: false as soon as one side is \<open>NaN\<close>.\<close>

fun gt :: "number \<Rightarrow> number \<Rightarrow> bool" where
  "gt (Num a) (Num b) = (a > b)"
| "gt _ _ = False"

fun minus_num :: "number \<Rightarrow> number \<Rightarrow> number" where
  "minus_num (Num a) (Num b) = Num (a - b)"
| "minus_num _ _ = NaN"

fun times_num :: "number \<Rightarrow> number \<Rightarrow> number" where
  "times_num (Num a) (Num b) = Num (a * b)"
| "times_num _ _ = NaN"

text \<open>\<open>Math.round\<close> on a finite number: the nearest integer, a tie going up.\<close>

definition Math_round :: "real \<Rightarrow> int" where
  "Math_round x = \<lfloor>x + 1 / 2\<rfloor>"

section \<open>The applicant profile\<close>

text \<open>
  \<open>formData\<close> has the four sections \<open>personal\<close>, \<open>business\<close>, \<open>financials\<close> and
  \<open>documents\<close>; a section is an object, a finite map from property names to values.
  Reading a property that is absent gives \<open>undefined\<close>.
\<close>

datatype section_name = Personal | Business | Financials | Documents

type_synonym 'v fields = "string \<rightharpoonup> 'v"

type_synonym 'v formData = "section_name \<Rightarrow> 'v fields"

definition get_prop :: "jsval fields \<Rightarrow> string \<Rightarrow> jsval" where
  "get_prop obj k = (case obj k of None \<Rightarrow> JSUndefined | Some v \<Rightarrow> v)"

text \<open>
  \<open>updateFormData(section, data)\<close> of \<open>AppProvider\<close>:
  \<open>prev => ({ ...prev, [section]: { ...prev[section], ...data } })\<close>.
  The spread \<open>{ ...a, ...b }\<close> is \<open>a ++ b\<close>: the properties of both, those of \<open>b\<close> winning.
\<close>

definition updateFormData :: "section_name \<Rightarrow> 'v fields \<Rightarrow> 'v formData \<Rightarrow> 'v formData" where
  "updateFormData sec data prev = prev(sec := prev sec ++ data)"

section \<open>The heuristic scorer\<close>

text \<open>
  \<open>calculateScore\<close> of \<open>FinancialDataPage\<close>. \<open>rnd\<close> is the value of
  \<open>Math.random()\<close>, a number in \<open>[0, 1)\<close>; \<open>localData\<close> is the page's copy of the
  financials section. The result is the argument of \<open>setScore\<close>.
\<close>

definition stages_with_bonus :: "jsval list" where
  "stages_with_bonus = [JSString ''MVP Ready'', JSString ''Early Customers'', JSString ''Revenue Generating'']"

definition calculateScore :: "(string \<Rightarrow> number) \<Rightarrow> real \<Rightarrow> jsval formData \<Rightarrow> jsval fields \<Rightarrow> int" where
  "calculateScore sn rnd formData localData =
    (let fullData = formData(Financials := formData Financials ++ localData);
         business = fullData Business;
         financials = fullData Financials;
         score = (300 :: real);
         score = (if gt (ToNumber sn (get_prop business ''revenueProjection'')) (Num 50000) then score + 50 else score);
         score = (if gt (ToNumber sn (get_prop business ''yearsExperience'')) (Num 2) then score + 40 else score);
         score = (if get_prop business ''businessStage'' \<in> set stages_with_bonus then score + 35 else score);
         cashFlow = minus_num (ToNumber sn (or_else (get_prop financials ''monthlyIncome'') (JSNumber (Num 0))))
                              (ToNumber sn (or_else (get_prop financials ''monthlyExpenses'') (JSNumber (Num 0))));
         score = (if gt cashFlow (Num 500) then score + 60 else score);
         score = (if gt (ToNumber sn (get_prop financials ''monthlyExpenses'')) (Num 0)
                     \<and> gt (ToNumber sn (or_else (get_prop financials ''savingsAmount'') (JSNumber (Num 0))))
                           (times_num (ToNumber sn (get_prop financials ''monthlyExpenses'')) (Num 3))
                  then score + 40 else score);
         score = score + rnd * 100
     in min (Math_round score) 850)"

text \<open>
  The risk level shown by the dashboard of the heuristic variant (\<open>MainContent\<close>):
  \<open>score > 700 ? 'Low' : score > 600 ? 'Medium' : 'High'\<close>. The score state is
  \<open>null\<close> until a score is set; in a comparison \<open>null\<close> converts to \<open>0\<close>.
\<close>

datatype risk = Low | Medium | High




section \<open>The profile store of the gateway variant\<close>

text \<open>
  The variant of the front end that calls the scoring service has no \<open>updateFormData\<close>.
  A page keeps a copy \<open>localData\<close> of its section, \<open>handleChange\<close> writes one input into
  the copy, and \<open>handleSubmit\<close> of \<open>RegistrationPage\<close> stores the copy as the section:
  \<open>prev => ({ ...prev, personal: localData })\<close>.
\<close>

definition handleChange :: "string \<Rightarrow> 'v \<Rightarrow> 'v fields \<Rightarrow> 'v fields" where
  "handleChange name val prev = prev(name \<mapsto> val)"

definition RegistrationPage_handleSubmit :: "'v fields \<Rightarrow> 'v formData \<Rightarrow> 'v formData" where
  "RegistrationPage_handleSubmit localData prev = prev(Personal := localData)"

section \<open>The insights of the heuristic variant\<close>

text \<open>
  \<open>getAIInsights(userData)\<close>. \<open>userData.score\<close> is \<open>score || 0\<close>, an integer;
  \<open>userData.cashFlow\<close> is a number; \<open>userData.dti\<close> is the string made by \<open>toFixed(2)\<close>,
  which the comparison converts back to a number; \<open>userData.industry\<close> is the text of an
  input, empty when nothing was entered. The icon of a recommendation is presentation and is
  left out.
\<close>

record userData =
  score :: int
  cashFlow :: number
  dti :: jsval
  industry :: string

record loanRecommendation =
  loan_type :: string
  rate :: string
  amount :: string
  terms :: string
  reason :: string

record creditImprovement =
  title :: string
  action :: string
  impact :: string

record insights =
  loanRecommendations :: "loanRecommendation list"
  creditImprovements :: "creditImprovement list"
  marketAlert :: string

definition getAIInsights :: "(string \<Rightarrow> number) \<Rightarrow> userData \<Rightarrow> insights" where
  "getAIInsights sn ud =
    \<lparr>loanRecommendations =
       (if score ud \<ge> 700
        then [\<lparr>loan_type = ''SBA Microloan'', rate = ''6.5%'', amount = ''$50,000'', terms = ''Up to 6 years'',
               reason = ''Excellent for businesses with strong early traction.''\<rparr>]
        else [])
       @ (if gt (cashFlow ud) (Num 500)
          then [\<lparr>loan_type = ''Business Line of Credit'', rate = ''8.2%'', amount = ''$25,000'', terms = ''Revolving'',
                 reason = ''Flexible funding for your positive cash flow.''\<rparr>]
          else [])
       @ [\<lparr>loan_type = ''Fintech Term Loan'', rate = ''9.5%'', amount = ''$75,000'', terms = ''3-5 years'',
            reason = ''Fast funding for growth opportunities.''\<rparr>],
     creditImprovements =
       (if gt (ToNumber sn (dti ud)) (Num 20)
        then [\<lparr>title = ''Optimize Debt-to-Income'',
               action = ''Consider consolidating smaller debts to lower your DTI ratio.'',
               impact = ''+15-25 points''\<rparr>]
        else [])
       @ [\<lparr>title = ''Build Business Credit'',
            action = ''Open a business credit card and use it for small, regular purchases.'',
            impact = ''+20-30 points''\<rparr>],
     marketAlert =
       ''SBA loan rates for the '' @ (if industry ud \<noteq> [] then industry ud else ''your'')
       @ '' industry have decreased by 0.25% this quarter. It'' @ [CHR 0x27] @ ''s a favorable time to apply.''\<rparr>"

section \<open>The chat assistant\<close>

text \<open>
  \<open>YecsCopilot\<close>: the message log, the text of the input box and the \<open>isThinking\<close> flag.
  \<open>String.prototype.trim\<close> removes white space at both ends; a character is a code point
  below 256 here.
\<close>

datatype sender = User | AI

record chat =
  messages :: "(sender \<times> string) list"
  input :: string
  isThinking :: bool

definition js_space :: "char \<Rightarrow> bool" where
  "js_space c = (c \<in> set [CHR 0x09, CHR 0x0A, CHR 0x0B, CHR 0x0C, CHR 0x0D, CHR 0x20, CHR 0xA0])"

definition trim :: "string \<Rightarrow> string" where
  "trim s = rev (dropWhile js_space (rev (dropWhile js_space s)))"

text \<open>
  \<open>handleSend\<close> up to its \<open>await\<close>: the new state and the prompt that is posted to the
  model, if one is. \<open>ud\<close> is \<open>JSON.stringify(userData)\<close>.
\<close>

definition chat_prompt :: "string \<Rightarrow> string \<Rightarrow> string" where
  "chat_prompt ud text =
     ''You are YECS AI, a financial assistant for young entrepreneurs. Based on this user''
     @ [CHR 0x27] @ ''s data: '' @ ud @ ''. The user asks: '' @ [CHR 0x22] @ text @ [CHR 0x22]
     @ ''. Provide a concise, helpful, and encouraging answer. Use markdown for formatting (e.g., **bold**, *italics*).''"

definition handleSend :: "string \<Rightarrow> chat \<Rightarrow> chat \<times> string option" where
  "handleSend ud s =
     (if trim (input s) = [] \<or> isThinking s then (s, None)
      else (s\<lparr>messages := messages s @ [(User, input s)], input := [], isThinking := True\<rparr>,
            Some (chat_prompt ud (input s))))"

text \<open>
  The rest of \<open>handleSend\<close>, once the request has settled: \<open>Reply_text t\<close> when the first
  candidate carries a non-empty text, \<open>No_text\<close> when it does not, \<open>Request_threw\<close> when
  the request or the inspection of its result threw.
\<close>

datatype reply = Reply_text string | No_text | Request_threw

definition handleSend_settled :: "reply \<Rightarrow> chat \<Rightarrow> chat" where
  "handleSend_settled r s =
     (let aiResponseText =
        (case r of
           Reply_text t \<Rightarrow> t
         | No_text \<Rightarrow> ''I couldn'' @ [CHR 0x27] @ ''t generate a response right now. Please try asking differently.''
         | Request_threw \<Rightarrow> ''I'' @ [CHR 0x27] @ ''m having trouble connecting to my brain. Please check the console for errors.'')
      in s\<lparr>isThinking := False, messages := messages s @ [(AI, aiResponseText)]\<rparr>)"

section \<open>JSON values\<close>

text \<open>
  What \<open>json.loads\<close>, \<open>response.json()\<close> and \<open>request.get_json()\<close> return. An object
  keeps its members in the order of the text; a name that occurs twice has the value of its
  last occurrence. A float is a finite real.
\<close>

datatype json =
    JNull
  | JBool bool
  | JInt int
  | JFloat real
  | JString string
  | JArray "json list"
  | JObject "(string \<times> json) list"

definition lookup :: "(string \<times> json) list \<Rightarrow> string \<Rightarrow> json option" where
  "lookup kv k = map_of (rev kv) k"

section \<open>The scoring workflow of the gateway variant\<close>

text \<open>
  \<open>result.error\<close> in JavaScript, for a property name that no built-in object has:
  reading a property of \<open>null\<close> throws, an object gives the member or \<open>undefined\<close>, every
  other value gives \<open>undefined\<close>.
\<close>

datatype js_read = Threw_TypeError | Undefined | Value json

fun js_member :: "json \<Rightarrow> string \<Rightarrow> js_read" where
  "js_member JNull k = Threw_TypeError"
| "js_member (JObject kv) k = (case lookup kv k of None \<Rightarrow> Undefined | Some v \<Rightarrow> Value v)"
| "js_member _ k = Undefined"

fun js_truthy :: "json \<Rightarrow> bool" where
  "js_truthy JNull = False"
| "js_truthy (JBool b) = b"
| "js_truthy (JInt n) = (n \<noteq> 0)"
| "js_truthy (JFloat r) = (r \<noteq> 0)"
| "js_truthy (JString s) = (s \<noteq> [])"
| "js_truthy (JArray xs) = True"
| "js_truthy (JObject kv) = True"

datatype page_name = Register_page | Business_page | Financials_page | Score_page | Dashboard_page

text \<open>
  How the request of \<open>FinancialDataPage.handleSubmit\<close> settles: \<open>fetch\<close> rejects, or
  there is a response with a status, the text of its body and the value that body parses to
  (\<open>None\<close> when \<open>response.json()\<close> rejects).
\<close>

datatype fetch_outcome = Rejected string | Response nat string "json option"

definition response_ok :: "nat \<Rightarrow> bool" where
  "response_ok status = (200 \<le> status \<and> status \<le> 299)"

text \<open>What the \<open>catch\<close> block receives; the page shows it with \<open>alert\<close>.\<close>

datatype submit_error =
    Fetch_rejected string
  | Bad_status nat string
  | Body_not_json
  | Result_null
  | Error_payload json

record 'v app =
  page :: page_name
  formData :: "'v formData"
  scoreData :: "json option"
  isCalculating :: bool
  alerts :: "submit_error list"

text \<open>The \<open>try\<close> block: the error thrown, or the result given to \<open>setScoreData\<close>.\<close>

definition submit_try :: "fetch_outcome \<Rightarrow> submit_error + json" where
  "submit_try outcome =
     (case outcome of
        Rejected msg \<Rightarrow> Inl (Fetch_rejected msg)
      | Response status errorBody body \<Rightarrow>
          if \<not> response_ok status then Inl (Bad_status status errorBody)
          else
            (case body of
               None \<Rightarrow> Inl Body_not_json
             | Some result \<Rightarrow>
                 (case js_member result ''error'' of
                    Threw_TypeError \<Rightarrow> Inl Result_null
                  | Undefined \<Rightarrow> Inr result
                  | Value e \<Rightarrow> if js_truthy e then Inl (Error_payload e) else Inr result)))"

definition FinancialDataPage_handleSubmit :: "'v fields \<Rightarrow> fetch_outcome \<Rightarrow> 'v app \<Rightarrow> 'v app" where
  "FinancialDataPage_handleSubmit localData outcome s =
     (let s = s\<lparr>isCalculating := True\<rparr>;
          updatedFormData = (formData s)(Financials := localData);
          s = s\<lparr>formData := updatedFormData\<rparr>;
          s = (case submit_try outcome of
                 Inr result \<Rightarrow> s\<lparr>scoreData := Some result, page := Score_page\<rparr>
               | Inl err \<Rightarrow> s\<lparr>alerts := alerts s @ [err]\<rparr>)
      in s\<lparr>isCalculating := False\<rparr>)"

section \<open>Python strings\<close>

text \<open>
  \<open>str.startswith\<close>, the substring test \<open>old in s\<close>, \<open>str.replace\<close> (every occurrence,
  found from left to right, occurrences not overlapping) and \<open>str.strip\<close>. A character is
  a code point below 256.
\<close>

fun startswith :: "string \<Rightarrow> string \<Rightarrow> bool" where
  "startswith [] s = True"
| "startswith (p # ps) [] = False"
| "startswith (p # ps) (c # cs) = (p = c \<and> startswith ps cs)"

fun has_sub :: "string \<Rightarrow> string \<Rightarrow> bool" where
  "has_sub old [] = (old = [])"
| "has_sub old (c # cs) = (startswith old (c # cs) \<or> has_sub old cs)"

fun py_replace :: "string \<Rightarrow> string \<Rightarrow> string \<Rightarrow> string" where
  "py_replace old new [] = (if old = [] then new else [])"
| "py_replace old new (c # cs) =
     (if old = [] then new @ c # py_replace old new cs
      else if startswith old (c # cs) then new @ py_replace old new (drop (length old) (c # cs))
      else c # py_replace old new cs)"

definition py_space :: "char \<Rightarrow> bool" where
  "py_space c =
     (c \<in> set [CHR 0x09, CHR 0x0A, CHR 0x0B, CHR 0x0C, CHR 0x0D, CHR 0x1C, CHR 0x1D, CHR 0x1E, CHR 0x1F,
               CHR 0x20, CHR 0x85, CHR 0xA0])"

definition py_strip :: "string \<Rightarrow> string" where
  "py_strip s = rev (dropWhile py_space (rev (dropWhile py_space s)))"

section \<open>Python values of the scoring service\<close>

datatype py_exception =
    KeyError | IndexError | TypeError | AttributeError | JSONDecodeError | ValueError | RecursionError

text \<open>Truth of a value, as \<open>if not user_data\<close> tests it.\<close>

fun py_truthy :: "json \<Rightarrow> bool" where
  "py_truthy JNull = False"
| "py_truthy (JBool b) = b"
| "py_truthy (JInt n) = (n \<noteq> 0)"
| "py_truthy (JFloat r) = (r \<noteq> 0)"
| "py_truthy (JString s) = (s \<noteq> [])"
| "py_truthy (JArray xs) = (xs \<noteq> [])"
| "py_truthy (JObject kv) = (kv \<noteq> [])"

text \<open>\<open>k in x\<close> for a string \<open>k\<close>: a key of a dict, an element of a list, a substring of a string.\<close>

fun py_in :: "string \<Rightarrow> json \<Rightarrow> py_exception + bool" where
  "py_in k (JObject kv) = Inr (lookup kv k \<noteq> None)"
| "py_in k (JArray xs) = Inr (JString k \<in> set xs)"
| "py_in k (JString s) = Inr (has_sub k s)"
| "py_in k _ = Inl TypeError"

text \<open>\<open>x[k]\<close> for a string \<open>k\<close>, and \<open>x[0]\<close>. No key of a decoded object is the integer 0.\<close>

fun getitem :: "json \<Rightarrow> string \<Rightarrow> py_exception + json" where
  "getitem (JObject kv) k = (case lookup kv k of None \<Rightarrow> Inl KeyError | Some v \<Rightarrow> Inr v)"
| "getitem _ k = Inl TypeError"

fun getitem0 :: "json \<Rightarrow> py_exception + json" where
  "getitem0 (JArray xs) = (case xs of [] \<Rightarrow> Inl IndexError | x # _ \<Rightarrow> Inr x)"
| "getitem0 (JString s) = (case s of [] \<Rightarrow> Inl IndexError | c # _ \<Rightarrow> Inr (JString [c]))"
| "getitem0 (JObject kv) = Inl KeyError"
| "getitem0 _ = Inl TypeError"

text \<open>\<open>x.strip()\<close>: only a string has the method.\<close>

fun strip_method :: "json \<Rightarrow> py_exception + string" where
  "strip_method (JString s) = Inr (py_strip s)"
| "strip_method _ = Inl AttributeError"

text \<open>Sequencing of statements that may raise.\<close>

definition and_then :: "'e + 'a \<Rightarrow> ('a \<Rightarrow> 'e + 'b) \<Rightarrow> 'e + 'b" where
  "and_then r f = (case r of Inl e \<Rightarrow> Inl e | Inr x \<Rightarrow> f x)"

section \<open>The model gateway\<close>

text \<open>
  \<open>call_gemini_api(prompt)\<close>. \<open>key\<close> is \<open>GEMINI_API_KEY\<close> of the environment. \<open>post\<close> is
  the request to the provider together with \<open>raise_for_status\<close> and \<open>response.json()\<close>:
  the decoded envelope, or the message of the \<open>RequestException\<close>. A prompt is identified
  by its template and the user data it embeds.
\<close>

datatype prompt = Score_prompt json | Insights_prompt json

definition call_gemini_api :: "string option \<Rightarrow> (prompt \<Rightarrow> string + json) \<Rightarrow> prompt \<Rightarrow> json" where
  "call_gemini_api key post p =
     (if key = None \<or> key = Some [] then JObject [(''error'', JString ''Gemini API key is not configured.'')]
      else
        (case post p of
           Inr envelope \<Rightarrow> envelope
         | Inl e \<Rightarrow> JObject [(''error'', JString (''Could not connect to Gemini API: '' @ e))]))"

text \<open>
  The body of the \<open>try\<close> statement, the same in both endpoints:
  \<open>gemini_response['candidates'][0]['content']['parts'][0]['text']\<close>, then
  \<open>.strip().replace('```json', '').replace('```', '')\<close>, then \<open>json.loads\<close>.
  \<open>loads\<close> is the decoder of the standard library: the value it returns, or the
  exception it raises. On a text it rejects that is \<open>JSONDecodeError\<close>; on a text nested
  deeper than the interpreter allows it is \<open>RecursionError\<close>, and on an integer with more
  digits than the interpreter converts it is a plain \<open>ValueError\<close>. It accepts the
  literals \<open>NaN\<close> and \<open>Infinity\<close>, which are no JSON.
\<close>

definition response_text :: "json \<Rightarrow> py_exception + json" where
  "response_text gemini_response =
     and_then (getitem gemini_response ''candidates'') (\<lambda>candidates.
     and_then (getitem0 candidates) (\<lambda>candidate.
     and_then (getitem candidate ''content'') (\<lambda>content.
     and_then (getitem content ''parts'') (\<lambda>parts.
     and_then (getitem0 parts) (\<lambda>part.
     getitem part ''text'')))))"

definition cleaned_text :: "string \<Rightarrow> string" where
  "cleaned_text stripped = py_replace ''```'' [] (py_replace ''```json'' [] stripped)"

definition try_parse :: "(string \<Rightarrow> py_exception + json) \<Rightarrow> json \<Rightarrow> py_exception + json" where
  "try_parse loads gemini_response =
     and_then (response_text gemini_response) (\<lambda>text.
     and_then (strip_method text) (\<lambda>stripped.
     loads (cleaned_text stripped)))"

text \<open>
  An endpoint returns a body and a status, or an exception leaves it; it also prints. The
  \<open>except\<close> clause names \<open>KeyError\<close>, \<open>IndexError\<close> and \<open>json.JSONDecodeError\<close>;
  \<open>JSONDecodeError\<close> is a subclass of \<open>ValueError\<close>, so that a plain \<open>ValueError\<close> is
  not caught.
\<close>

datatype printed = Error_parsing py_exception | Raw_response json

type_synonym endpoint_result = "(py_exception + json \<times> nat) \<times> printed list"

definition error_body :: "string \<Rightarrow> json" where
  "error_body msg = JObject [(''error'', JString msg)]"

definition caught :: "py_exception \<Rightarrow> bool" where
  "caught e = (e = KeyError \<or> e = IndexError \<or> e = JSONDecodeError)"

definition calculate_score_with_gemini ::
  "string option \<Rightarrow> (prompt \<Rightarrow> string + json) \<Rightarrow> (string \<Rightarrow> py_exception + json) \<Rightarrow> json
     \<Rightarrow> endpoint_result" where
  "calculate_score_with_gemini key post loads user_data =
     (if \<not> py_truthy user_data then (Inr (error_body ''No data provided'', 400), [])
      else
        (let gemini_response = call_gemini_api key post (Score_prompt user_data) in
         case py_in ''error'' gemini_response of
           Inl e \<Rightarrow> (Inl e, [])
         | Inr True \<Rightarrow> (Inr (gemini_response, 500), [])
         | Inr False \<Rightarrow>
             (case try_parse loads gemini_response of
                Inr score_data \<Rightarrow> (Inr (score_data, 200), [])
              | Inl e \<Rightarrow>
                  if caught e
                  then (Inr (error_body ''Failed to parse the score from AI response.'', 500),
                        [Error_parsing e, Raw_response gemini_response])
                  else (Inl e, []))))"

definition get_ai_insights_from_gemini ::
  "string option \<Rightarrow> (prompt \<Rightarrow> string + json) \<Rightarrow> (string \<Rightarrow> py_exception + json) \<Rightarrow> json
     \<Rightarrow> endpoint_result" where
  "get_ai_insights_from_gemini key post loads user_data =
     (if \<not> py_truthy user_data then (Inr (error_body ''No user data provided'', 400), [])
      else
        (let gemini_response = call_gemini_api key post (Insights_prompt user_data) in
         case py_in ''error'' gemini_response of
           Inl e \<Rightarrow> (Inl e, [])
         | Inr True \<Rightarrow> (Inr (gemini_response, 500), [])
         | Inr False \<Rightarrow>
             (case try_parse loads gemini_response of
                Inr insights_data \<Rightarrow> (Inr (insights_data, 200), [])
              | Inl e \<Rightarrow>
                  if caught e
                  then (Inr (error_body ''Failed to parse insights from AI response.'', 500),
                        [Error_parsing e, Raw_response gemini_response])
                  else (Inl e, []))))"

section \<open>A decoder for a fragment of JSON\<close>

text \<open>
  The behaviour of \<open>json.loads\<close> on short texts made of objects, arrays, strings without
  escape sequences, integers and the three literals, with white space between the tokens. It
  serves to run the endpoints on concrete responses of that kind, and stands for the decoder
  on no other text: outside the fragment (a fraction, an exponent, an escape, \<open>NaN\<close>) it
  rejects what the decoder may accept. The first argument of the three mutually recursive
  functions bounds the depth of the recursion.
\<close>

definition json_ws :: "char \<Rightarrow> bool" where
  "json_ws c = (c = CHR 0x20 \<or> c = CHR 0x09 \<or> c = CHR 0x0A \<or> c = CHR 0x0D)"

definition skip_ws :: "string \<Rightarrow> string" where
  "skip_ws s = dropWhile json_ws s"

definition digit_val :: "char \<Rightarrow> nat option" where
  "digit_val c =
     (if 48 \<le> (of_char c :: nat) \<and> (of_char c :: nat) \<le> 57 then Some (of_char c - 48) else None)"

fun scan_digits :: "nat \<Rightarrow> string \<Rightarrow> nat \<times> string" where
  "scan_digits acc [] = (acc, [])"
| "scan_digits acc (c # cs) =
     (case digit_val c of None \<Rightarrow> (acc, c # cs) | Some d \<Rightarrow> scan_digits (10 * acc + d) cs)"

fun scan_nat :: "string \<Rightarrow> (nat \<times> string) option" where
  "scan_nat [] = None"
| "scan_nat (c # cs) =
     (case digit_val c of
        None \<Rightarrow> None
      | Some d \<Rightarrow> if d = 0 then Some (0, cs) else Some (scan_digits d cs))"

fun scan_string :: "string \<Rightarrow> string \<Rightarrow> (string \<times> string) option" where
  "scan_string acc [] = None"
| "scan_string acc (c # cs) =
     (if c = CHR 0x22 then Some (rev acc, cs)
      else if c = CHR 0x5C \<or> (of_char c :: nat) < 32 then None
      else scan_string (c # acc) cs)"

fun literal_rest :: "string \<Rightarrow> string \<Rightarrow> string option" where
  "literal_rest [] s = Some s"
| "literal_rest (p # ps) [] = None"
| "literal_rest (p # ps) (c # cs) = (if p = c then literal_rest ps cs else None)"

fun decode_value :: "string \<Rightarrow> string \<Rightarrow> (json \<times> string) option"
  and decode_elems :: "string \<Rightarrow> json list \<Rightarrow> string \<Rightarrow> (json \<times> string) option"
  and decode_members :: "string \<Rightarrow> (string \<times> json) list \<Rightarrow> string \<Rightarrow> (json \<times> string) option"
where
  "decode_value [] s = None"
| "decode_value (f # fuel) s =
     (case s of
        [] \<Rightarrow> None
      | c # cs \<Rightarrow>
          if c = CHR 0x22 then
            (case scan_string [] cs of None \<Rightarrow> None | Some (str, rest) \<Rightarrow> Some (JString str, rest))
          else if c = CHR ''{'' then
            (case skip_ws cs of
               [] \<Rightarrow> None
             | d # ds \<Rightarrow> if d = CHR ''}'' then Some (JObject [], ds) else decode_members fuel [] (d # ds))
          else if c = CHR ''['' then
            (case skip_ws cs of
               [] \<Rightarrow> None
             | d # ds \<Rightarrow> if d = CHR '']'' then Some (JArray [], ds) else decode_elems fuel [] (d # ds))
          else if c = CHR ''n'' then map_option (Pair JNull) (literal_rest ''ull'' cs)
          else if c = CHR ''t'' then map_option (Pair (JBool True)) (literal_rest ''rue'' cs)
          else if c = CHR ''f'' then map_option (Pair (JBool False)) (literal_rest ''alse'' cs)
          else if c = CHR ''-'' then
            (case scan_nat cs of None \<Rightarrow> None | Some (n, rest) \<Rightarrow> Some (JInt (- int n), rest))
          else
            (case scan_nat s of None \<Rightarrow> None | Some (n, rest) \<Rightarrow> Some (JInt (int n), rest)))"
| "decode_elems [] acc s = None"
| "decode_elems (f # fuel) acc s =
     (case decode_value fuel s of
        None \<Rightarrow> None
      | Some (v, rest) \<Rightarrow>
          (case skip_ws rest of
             [] \<Rightarrow> None
           | d # ds \<Rightarrow>
               if d = CHR '','' then decode_elems fuel (acc @ [v]) (skip_ws ds)
               else if d = CHR '']'' then Some (JArray (acc @ [v]), ds)
               else None))"
| "decode_members [] acc s = None"
| "decode_members (f # fuel) acc s =
     (case s of
        [] \<Rightarrow> None
      | c # cs \<Rightarrow>
          if c \<noteq> CHR 0x22 then None
          else
            (case scan_string [] cs of
               None \<Rightarrow> None
             | Some (key, rest) \<Rightarrow>
                 (case skip_ws rest of
                    [] \<Rightarrow> None
                  | d # ds \<Rightarrow>
                      if d \<noteq> CHR '':'' then None
                      else
                        (case decode_value fuel (skip_ws ds) of
                           None \<Rightarrow> None
                         | Some (v, rest') \<Rightarrow>
                             (case skip_ws rest' of
                                [] \<Rightarrow> None
                              | e # es \<Rightarrow>
                                  if e = CHR '','' then decode_members fuel (acc @ [(key, v)]) (skip_ws es)
                                  else if e = CHR ''}'' then Some (JObject (acc @ [(key, v)]), es)
                                  else None)))))"

definition decode_text :: "string \<Rightarrow> json option" where
  "decode_text s =
     (case decode_value (CHR 0x20 # s) (skip_ws s) of
        None \<Rightarrow> None
      | Some (v, rest) \<Rightarrow> if skip_ws rest = [] then Some v else None)"

definition json_loads :: "string \<Rightarrow> py_exception + json" where
  "json_loads s = (case decode_text s of None \<Rightarrow> Inl JSONDecodeError | Some v \<Rightarrow> Inr v)"

section \<open>Concrete inputs\<close>

text \<open>
  The profile of the scenario: revenue projection 60000, three years of experience, stage
  ``MVP Ready'', income 4000, expenses 3000, savings 10000 and no debt.
\<close>

definition scenario_business :: "jsval fields" where
  "scenario_business =
     [''revenueProjection'' \<mapsto> JSNumber (Num 60000),
      ''yearsExperience'' \<mapsto> JSNumber (Num 3),
      ''businessStage'' \<mapsto> JSString ''MVP Ready'']"

definition scenario_financials :: "jsval fields" where
  "scenario_financials =
     [''monthlyIncome'' \<mapsto> JSNumber (Num 4000),
      ''monthlyExpenses'' \<mapsto> JSNumber (Num 3000),
      ''savingsAmount'' \<mapsto> JSNumber (Num 10000),
      ''debtAmount'' \<mapsto> JSNumber (Num 0)]"

definition scenario :: "jsval formData" where
  "scenario sec = (case sec of Business \<Rightarrow> scenario_business | Financials \<Rightarrow> scenario_financials | _ \<Rightarrow> Map.empty)"

text \<open>
  The envelope the provider answers with, around the text of its first candidate; a request
  body; and the text of a score whose \<open>yecs_score\<close> is 900.
\<close>

definition envelope :: "string \<Rightarrow> json" where
  "envelope text =
     JObject [(''candidates'', JArray [JObject [(''content'',
       JObject [(''parts'', JArray [JObject [(''text'', JString text)]])])]])]"

definition sample_profile :: json where
  "sample_profile = JObject [(''personal'', JObject [(''firstName'', JString ''Ada'')])]"

definition score_text_900 :: string where
  \<open>score_text_900 = ''{"yecs_score": 900, "risk_level": "Low"}''\<close>


text \<open>
  A candidate text in Markdown code fences; the text of a score of 720 on a line of its own;
  a JSON text with three backticks inside a string, and what is left of it once every run of
  three backticks is gone.
\<close>

definition fenced :: "string \<Rightarrow> string" where
  "fenced inner = ''```json'' @ inner @ ''```''"

definition fenced_score_inner :: string where
  \<open>fenced_score_inner = [CHR 0x0A] @ ''{"yecs_score": 720}'' @ [CHR 0x0A]\<close>

definition backtick_inner :: string where
  \<open>backtick_inner = [CHR 0x0A] @ ''{"reasoning": "a```b"}'' @ [CHR 0x0A]\<close>

definition backtick_cleaned :: string where
  \<open>backtick_cleaned = [CHR 0x0A] @ ''{"reasoning": "ab"}'' @ [CHR 0x0A]\<close>




definition insights_text_empty :: string where
  \<open>insights_text_empty = ''{"marketAlert": "m", "loanRecommendations": [], "creditImprovements": []}''\<close>

definition modest_user :: userData where
  "modest_user = \<lparr>score = 450, cashFlow = Num 200, dti = JSString ''10.00'', industry = ''Tech''\<rparr>"

definition error_result_text :: string where
  \<open>error_result_text = ''{"error": "Failed to parse the score from AI response."}''\<close>

definition error_result :: json where
  "error_result = JObject [(''error'', JString ''Failed to parse the score from AI response.'')]"

definition score_result_text :: string where
  \<open>score_result_text = ''{"yecs_score": 720, "risk_level": "Low"}''\<close>

definition score_result_720 :: json where
  "score_result_720 = JObject [(''yecs_score'', JInt 720), (''risk_level'', JString ''Low'')]"

definition at_financials :: "jsval app" where
  "at_financials = \<lparr>page = Financials_page, formData = (\<lambda>_. Map.empty), scoreData = None,
     isCalculating = False, alerts = []\<rparr>"

section \<open>The heuristic scorer stays in range\<close>

lemma Math_round_bounds:
  assumes "of_int lo \<le> x" and "x < of_int hi"
  shows "lo \<le> Math_round x \<and> Math_round x \<le> hi"
proof -
  have "of_int lo \<le> x + 1 / 2" using assms(1) by simp
  then have l: "lo \<le> Math_round x" unfolding Math_round_def by (simp only: le_floor_iff)
  have "x + 1 / 2 < of_int (hi + 1)" using assms(2) by simp
  then have "Math_round x < hi + 1" unfolding Math_round_def by (simp only: floor_less_iff)
  with l show ?thesis by simp
qed

text \<open>The score is 300, plus the bonuses whose conditions hold, plus the jitter.\<close>

lemma calculateScore_flat:
  "calculateScore sn rnd fd localData =
    (let business = fd Business;
         financials = fd Financials ++ localData;
         c1 = gt (ToNumber sn (get_prop business ''revenueProjection'')) (Num 50000);
         c2 = gt (ToNumber sn (get_prop business ''yearsExperience'')) (Num 2);
         c3 = get_prop business ''businessStage'' \<in> set stages_with_bonus;
         c4 = gt (minus_num (ToNumber sn (or_else (get_prop financials ''monthlyIncome'') (JSNumber (Num 0))))
                            (ToNumber sn (or_else (get_prop financials ''monthlyExpenses'') (JSNumber (Num 0)))))
                 (Num 500);
         c5 = (gt (ToNumber sn (get_prop financials ''monthlyExpenses'')) (Num 0)
               \<and> gt (ToNumber sn (or_else (get_prop financials ''savingsAmount'') (JSNumber (Num 0))))
                     (times_num (ToNumber sn (get_prop financials ''monthlyExpenses'')) (Num 3)))
     in min (Math_round (300 + (if c1 then 50 else 0) + (if c2 then 40 else 0) + (if c3 then 35 else 0)
           + (if c4 then 60 else 0) + (if c5 then 40 else 0) + rnd * 100)) 850)"
  unfolding calculateScore_def Let_def
  apply (simp only: fun_upd_same fun_upd_other section_name.distinct simp_thms if_True if_False)
  apply (cases "gt (ToNumber sn (get_prop (fd Business) ''revenueProjection'')) (Num 50000)";
         cases "gt (ToNumber sn (get_prop (fd Business) ''yearsExperience'')) (Num 2)";
         cases "get_prop (fd Business) ''businessStage'' \<in> set stages_with_bonus";
         simp only: if_True if_False)
         apply (simp_all add: algebra_simps)
  done

lemma bonus_bounds: "0 \<le> a \<Longrightarrow> 0 \<le> (if c then a else (0::real)) \<and> (if c then a else 0) \<le> a"
  by simp

lemma calculateScore_shape:
  "\<exists>b. 0 \<le> b \<and> b \<le> 225 \<and>
     calculateScore sn rnd fd localData = min (Math_round (300 + b + rnd * 100)) 850"
proof -
  obtain c1 c2 c3 c4 c5 where
    eq: "calculateScore sn rnd fd localData =
       min (Math_round (300 + (if c1 then 50 else 0) + (if c2 then 40 else 0) + (if c3 then 35 else 0)
           + (if c4 then 60 else 0) + (if c5 then 40 else 0) + rnd * 100)) 850"
    unfolding calculateScore_flat Let_def by blast
  let ?b = "(if c1 then 50 else 0) + (if c2 then 40 else 0) + (if c3 then 35 else 0)
           + (if c4 then 60 else 0) + (if c5 then 40 else (0::real))"
  have b1: "0 \<le> (if c1 then 50 else (0::real)) \<and> (if c1 then 50 else (0::real)) \<le> 50"
    by (rule bonus_bounds) simp
  have b2: "0 \<le> (if c2 then 40 else (0::real)) \<and> (if c2 then 40 else (0::real)) \<le> 40"
    by (rule bonus_bounds) simp
  have b3: "0 \<le> (if c3 then 35 else (0::real)) \<and> (if c3 then 35 else (0::real)) \<le> 35"
    by (rule bonus_bounds) simp
  have b4: "0 \<le> (if c4 then 60 else (0::real)) \<and> (if c4 then 60 else (0::real)) \<le> 60"
    by (rule bonus_bounds) simp
  have b5: "0 \<le> (if c5 then 40 else (0::real)) \<and> (if c5 then 40 else (0::real)) \<le> 40"
    by (rule bonus_bounds) simp
  have "0 \<le> ?b \<and> ?b \<le> 225" using b1 b2 b3 b4 b5 by linarith
  moreover have "calculateScore sn rnd fd localData = min (Math_round (300 + ?b + rnd * 100)) 850"
    unfolding eq by (simp only: add.assoc)
  ultimately show ?thesis by blast
qed

lemma scenario_fields:
  "get_prop (scenario Business) ''revenueProjection'' = JSNumber (Num 60000)"
  "get_prop (scenario Business) ''yearsExperience'' = JSNumber (Num 3)"
  "get_prop (scenario Business) ''businessStage'' = JSString ''MVP Ready''"
  "get_prop (scenario Financials ++ scenario_financials) ''monthlyIncome'' = JSNumber (Num 4000)"
  "get_prop (scenario Financials ++ scenario_financials) ''monthlyExpenses'' = JSNumber (Num 3000)"
  "get_prop (scenario Financials ++ scenario_financials) ''savingsAmount'' = JSNumber (Num 10000)"
  by (simp_all add: scenario_def scenario_business_def scenario_financials_def get_prop_def)

lemma scenario_numbers:
  "ToNumber sn (get_prop (scenario Business) ''revenueProjection'') = Num 60000"
  "ToNumber sn (get_prop (scenario Business) ''yearsExperience'') = Num 3"
  "get_prop (scenario Business) ''businessStage'' = JSString ''MVP Ready''"
  "truthy (get_prop (scenario Financials ++ scenario_financials) ''monthlyIncome'')"
  "ToNumber sn (get_prop (scenario Financials ++ scenario_financials) ''monthlyIncome'') = Num 4000"
  "truthy (get_prop (scenario Financials ++ scenario_financials) ''monthlyExpenses'')"
  "ToNumber sn (get_prop (scenario Financials ++ scenario_financials) ''monthlyExpenses'') = Num 3000"
  "truthy (get_prop (scenario Financials ++ scenario_financials) ''savingsAmount'')"
  "ToNumber sn (get_prop (scenario Financials ++ scenario_financials) ''savingsAmount'') = Num 10000"
  by (simp_all add: scenario_fields)

lemma scenario_value:
  "calculateScore sn rnd scenario scenario_financials = min (Math_round (525 + rnd * 100)) 850"
  unfolding calculateScore_flat Let_def
  by (simp add: scenario_fields or_else_def stages_with_bonus_def)

lemma Math_round_624_9: "Math_round (6249 / 10) = 625"
  unfolding Math_round_def by simp

text \<open>
  C1. For every profile, every page copy of the financials and every jitter
  \<open>Math.random() * 100\<close> with \<open>Math.random()\<close> in \<open>[0, 1)\<close>, the score that
  \<open>calculateScore\<close> sets is an integer between 300 and 850.
\<close>

theorem calculateScore_range:
  assumes "0 \<le> rnd" and "rnd < 1"
  shows "300 \<le> calculateScore sn rnd fd localData \<and> calculateScore sn rnd fd localData \<le> 850"
proof -
  obtain b where b: "0 \<le> b" "b \<le> 225"
    and eq: "calculateScore sn rnd fd localData = min (Math_round (300 + b + rnd * 100)) 850"
    using calculateScore_shape by blast
  have "0 \<le> rnd * 100" using assms by simp
  then have "of_int 300 \<le> 300 + b + rnd * 100 + 1 / 2" using b by simp
  then have "300 \<le> Math_round (300 + b + rnd * 100)"
    unfolding Math_round_def by (simp only: le_floor_iff)
  then show ?thesis unfolding eq by simp
qed

theorem calculateScore_range_witness:
  "(0::real) \<le> 1 / 2 \<and> (1 / 2 :: real) < 1
   \<and> 300 \<le> calculateScore (\<lambda>s. NaN) (1 / 2) scenario scenario_financials
   \<and> calculateScore (\<lambda>s. NaN) (1 / 2) scenario scenario_financials \<le> 850"
proof -
  have h1: "(0::real) \<le> 1 / 2" and h2: "(1 / 2 :: real) < 1" by simp_all
  show ?thesis
    using h1 h2 calculateScore_range [OF h1 h2, of "\<lambda>s. NaN" scenario scenario_financials]
    by (intro conjI) simp_all
qed

text \<open>
  C6, as the code has it. For a profile with revenue projection 60000, three years of
  experience, stage ``MVP Ready'', income 4000, expenses 3000 and savings 10000, each held as
  a number or as a text that converts to it, and for every jitter in \<open>[0, 100)\<close>, the
  score is between 525 and 625, both included: rounding takes a jitter of 99.5 or more up to
  625. The debt does not enter the score.
\<close>

theorem scenario_score_range:
  assumes "ToNumber sn (get_prop (fd Business) ''revenueProjection'') = Num 60000"
    and "ToNumber sn (get_prop (fd Business) ''yearsExperience'') = Num 3"
    and "get_prop (fd Business) ''businessStage'' = JSString ''MVP Ready''"
    and "truthy (get_prop (fd Financials ++ localData) ''monthlyIncome'')"
    and "ToNumber sn (get_prop (fd Financials ++ localData) ''monthlyIncome'') = Num 4000"
    and "truthy (get_prop (fd Financials ++ localData) ''monthlyExpenses'')"
    and "ToNumber sn (get_prop (fd Financials ++ localData) ''monthlyExpenses'') = Num 3000"
    and "truthy (get_prop (fd Financials ++ localData) ''savingsAmount'')"
    and "ToNumber sn (get_prop (fd Financials ++ localData) ''savingsAmount'') = Num 10000"
    and "0 \<le> rnd" and "rnd < 1"
  shows "525 \<le> calculateScore sn rnd fd localData \<and> calculateScore sn rnd fd localData \<le> 625"
proof -
  have eq: "calculateScore sn rnd fd localData = min (Math_round (525 + rnd * 100)) 850"
    unfolding calculateScore_flat Let_def
    by (simp add: assms(1-9) or_else_def stages_with_bonus_def)
  have "of_int 525 \<le> 525 + rnd * 100" and "525 + rnd * 100 < of_int 625"
    using assms(10,11) by simp_all
  then have "525 \<le> Math_round (525 + rnd * 100) \<and> Math_round (525 + rnd * 100) \<le> 625"
    by (rule Math_round_bounds)
  then show ?thesis unfolding eq by simp
qed

theorem scenario_score_range_witness:
  "525 \<le> calculateScore (\<lambda>s. NaN) (1 / 4) scenario scenario_financials
   \<and> calculateScore (\<lambda>s. NaN) (1 / 4) scenario scenario_financials \<le> 625"
proof -
  have h1: "(0::real) \<le> 1 / 4" and h2: "(1 / 4 :: real) < 1" by simp_all
  show ?thesis
    by (rule scenario_score_range [OF scenario_numbers h1 h2])
qed


text \<open>
  With \<open>Math.random()\<close> at 0.999 the jitter is 99.9, the sum 624.9, and the score 625:
  it is not below 625.
\<close>

theorem scenario_score_reaches_625:
  "(0::real) \<le> 999 / 1000 \<and> (999 / 1000 :: real) < 1 \<and>
   \<not> (525 \<le> calculateScore (\<lambda>s. NaN) (999 / 1000) scenario scenario_financials \<and>
      calculateScore (\<lambda>s. NaN) (999 / 1000) scenario scenario_financials < 625)"
proof -
  have "(525 + 999 / 1000 * 100 :: real) = 6249 / 10" by simp
  then have "calculateScore (\<lambda>s. NaN) (999 / 1000) scenario scenario_financials = 625"
    unfolding scenario_value by (simp add: Math_round_624_9)
  then show ?thesis by simp
qed

section \<open>The risk level of the dashboard\<close>


section \<open>Merging into a section of the profile\<close>

text \<open>
  C2. \<open>updateFormData\<close> gives the named section the properties of the old section and of
  the data, the value of the data winning where both have the name; a property that the data
  does not name keeps its value, and every other section is the one it was.
\<close>

theorem updateFormData_merge:
  "updateFormData sec data prev sec = prev sec ++ data
   \<and> dom (updateFormData sec data prev sec) = dom (prev sec) \<union> dom data
   \<and> (\<forall>k. k \<in> dom data \<longrightarrow> updateFormData sec data prev sec k = data k)
   \<and> (\<forall>k. k \<notin> dom data \<longrightarrow> updateFormData sec data prev sec k = prev sec k)
   \<and> (\<forall>other. other \<noteq> sec \<longrightarrow> updateFormData sec data prev other = prev other)"
  by (auto simp: updateFormData_def map_add_dom_app_simps map_add_def split: option.splits)

theorem updateFormData_merge_witness:
  "updateFormData Business [''industry'' \<mapsto> JSString ''Tech'']
     ((\<lambda>_. Map.empty)(Business := [''businessName'' \<mapsto> JSString ''Acme'', ''industry'' \<mapsto> JSString ''''],
                       Personal := [''firstName'' \<mapsto> JSString ''Ada''])) Business ''industry''
     = Some (JSString ''Tech'')
   \<and> updateFormData Business [''industry'' \<mapsto> JSString ''Tech'']
     ((\<lambda>_. Map.empty)(Business := [''businessName'' \<mapsto> JSString ''Acme'', ''industry'' \<mapsto> JSString ''''],
                       Personal := [''firstName'' \<mapsto> JSString ''Ada''])) Business ''businessName''
     = Some (JSString ''Acme'')
   \<and> updateFormData Business [''industry'' \<mapsto> JSString ''Tech'']
     ((\<lambda>_. Map.empty)(Business := [''businessName'' \<mapsto> JSString ''Acme'', ''industry'' \<mapsto> JSString ''''],
                       Personal := [''firstName'' \<mapsto> JSString ''Ada''])) Personal
     = [''firstName'' \<mapsto> JSString ''Ada'']"
  using updateFormData_merge [of Business "[''industry'' \<mapsto> JSString ''Tech'']"
     "(\<lambda>_. Map.empty)(Business := [''businessName'' \<mapsto> JSString ''Acme'', ''industry'' \<mapsto> JSString ''''],
                       Personal := [''firstName'' \<mapsto> JSString ''Ada''])"]
  by simp

text \<open>
  In the gateway variant the page copy starts as the section itself and each input is written
  into the copy, so that storing the copy is the same merge, of the inputs that were written.
\<close>

lemma handleChange_fold:
  "fold (\<lambda>(name, val). handleChange name val) edits m = m ++ map_of (rev edits)"
proof (induction edits arbitrary: m)
  case Nil
  show ?case by simp
next
  case (Cons e es)
  obtain name val where e: "e = (name, val)" by (cases e)
  have "fold (\<lambda>(name, val). handleChange name val) (e # es) m = m(name \<mapsto> val) ++ map_of (rev es)"
  proof -
    have "fold (\<lambda>(name, val). handleChange name val) (e # es) m
        = fold (\<lambda>(name, val). handleChange name val) es (handleChange name val m)"
      by (simp add: e)
    also have "handleChange name val m = m(name \<mapsto> val)"
      by (simp only: handleChange_def)
    finally show ?thesis by (simp only: Cons.IH)
  qed
  also have "\<dots> = m ++ map_of (rev (e # es))"
    by (simp add: e map_of_append map_add_assoc [symmetric])
  finally show ?case .
qed

lemma RegistrationPage_submit_is_merge:
  "RegistrationPage_handleSubmit (fold (\<lambda>(name, val). handleChange name val) edits (prev Personal)) prev
     = updateFormData Personal (map_of (rev edits)) prev"
  by (simp add: RegistrationPage_handleSubmit_def updateFormData_def handleChange_fold)

section \<open>The guard of the chat assistant\<close>

text \<open>
  C8. When the input box is empty or holds white space only, or while a request is pending,
  \<open>handleSend\<close> changes nothing and posts nothing.
\<close>

theorem handleSend_noop:
  assumes "trim (input s) = [] \<or> isThinking s"
  shows "handleSend ud s = (s, None)"
  using assms by (simp add: handleSend_def)

lemma trim_spaces: "trim [CHR 0x20, CHR 0x09, CHR 0x0A] = []"
  by (simp add: trim_def js_space_def)

theorem handleSend_noop_witness:
  "handleSend ''{}'' \<lparr>messages = [(AI, ''Hello!'')], input = [], isThinking = False\<rparr>
     = (\<lparr>messages = [(AI, ''Hello!'')], input = [], isThinking = False\<rparr>, None)
   \<and> handleSend ''{}'' \<lparr>messages = [(AI, ''Hello!'')], input = [CHR 0x20, CHR 0x09, CHR 0x0A], isThinking = False\<rparr>
     = (\<lparr>messages = [(AI, ''Hello!'')], input = [CHR 0x20, CHR 0x09, CHR 0x0A], isThinking = False\<rparr>, None)
   \<and> handleSend ''{}'' \<lparr>messages = [(AI, ''Hello!''), (User, ''hi'')], input = ''more'', isThinking = True\<rparr>
     = (\<lparr>messages = [(AI, ''Hello!''), (User, ''hi'')], input = ''more'', isThinking = True\<rparr>, None)"
proof -
  have h1: "trim (input \<lparr>messages = [(AI, ''Hello!'')], input = [], isThinking = False\<rparr>) = []
      \<or> isThinking \<lparr>messages = [(AI, ''Hello!'')], input = [], isThinking = False\<rparr>"
    by (simp add: trim_def)
  have h2: "trim (input \<lparr>messages = [(AI, ''Hello!'')], input = [CHR 0x20, CHR 0x09, CHR 0x0A], isThinking = False\<rparr>) = []
      \<or> isThinking \<lparr>messages = [(AI, ''Hello!'')], input = [CHR 0x20, CHR 0x09, CHR 0x0A], isThinking = False\<rparr>"
    by (simp add: trim_spaces)
  have h3: "trim (input \<lparr>messages = [(AI, ''Hello!''), (User, ''hi'')], input = ''more'', isThinking = True\<rparr>) = []
      \<or> isThinking \<lparr>messages = [(AI, ''Hello!''), (User, ''hi'')], input = ''more'', isThinking = True\<rparr>"
    by simp
  show ?thesis
    using handleSend_noop [OF h1, of "''{}''"] handleSend_noop [OF h2, of "''{}''"]
      handleSend_noop [OF h3, of "''{}''"]
    by (intro conjI)
qed

text \<open>Otherwise it does append the message and post the prompt.\<close>

lemma handleSend_sends:
  "handleSend ''{}'' \<lparr>messages = [], input = ''hi'', isThinking = False\<rparr>
    = (\<lparr>messages = [(User, ''hi'')], input = [], isThinking = True\<rparr>, Some (chat_prompt ''{}'' ''hi''))"
  by (simp add: handleSend_def trim_def js_space_def)


section \<open>The score endpoint\<close>

lemma response_text_envelope: "response_text (envelope t) = Inr (JString t)"
  by (simp add: response_text_def envelope_def and_then_def lookup_def)

lemma py_in_envelope: "py_in ''error'' (envelope t) = Inr False"
  by (simp add: envelope_def lookup_def)

lemma call_with_key:
  "k \<noteq> [] \<Longrightarrow> post p = Inr resp \<Longrightarrow> call_gemini_api (Some k) post p = resp"
  by (simp add: call_gemini_api_def)

text \<open>
  C3, as the code has it. When the provider answers with an envelope that has no \<open>error\<close>
  member and whose candidate text, once cleaned, decodes, the endpoint answers 200 with the
  decoded value itself: the \<open>yecs_score\<close> in it is the one the model wrote.
\<close>

theorem score_payload_passed_through:
  assumes "py_truthy user_data" and "key = Some k" and "k \<noteq> []"
    and "post (Score_prompt user_data) = Inr resp"
    and "py_in ''error'' resp = Inr False"
    and "response_text resp = Inr (JString t)"
    and "loads (cleaned_text (py_strip t)) = Inr payload"
  shows "calculate_score_with_gemini key post loads user_data = (Inr (payload, 200), [])"
proof -
  have call: "call_gemini_api key post (Score_prompt user_data) = resp"
    using assms(2,3,4) by (simp add: call_with_key)
  have "try_parse loads resp = Inr payload"
    using assms(6,7) by (simp add: try_parse_def and_then_def)
  then show ?thesis
    using assms(1,5) call by (simp add: calculate_score_with_gemini_def)
qed

lemma strip_900: "py_strip score_text_900 = score_text_900"
  by (simp add: py_strip_def score_text_900_def py_space_def)

lemma clean_900: "cleaned_text score_text_900 = score_text_900"
  by (simp add: cleaned_text_def score_text_900_def)

lemma loads_900: "json_loads score_text_900 = Inr (JObject [(''yecs_score'', JInt 900), (''risk_level'', JString ''Low'')])"
  by (simp add: json_loads_def decode_text_def score_text_900_def skip_ws_def json_ws_def digit_val_def)

theorem score_payload_passed_through_witness:
  "calculate_score_with_gemini (Some ''key'') (\<lambda>p. Inr (envelope score_text_900)) json_loads sample_profile
     = (Inr (JObject [(''yecs_score'', JInt 900), (''risk_level'', JString ''Low'')], 200), [])"
proof -
  have "py_truthy sample_profile" by (simp add: sample_profile_def)
  moreover have "''key'' \<noteq> []" by simp
  moreover have "json_loads (cleaned_text (py_strip score_text_900))
     = Inr (JObject [(''yecs_score'', JInt 900), (''risk_level'', JString ''Low'')])"
    by (simp add: strip_900 clean_900 loads_900)
  ultimately show ?thesis
    using score_payload_passed_through [of sample_profile "Some ''key''" "''key''"
        "\<lambda>p. Inr (envelope score_text_900)" "envelope score_text_900" score_text_900 json_loads]
    by (simp add: py_in_envelope response_text_envelope)
qed

text \<open>A model score of 900 reaches the caller as 900.\<close>

theorem score_not_clamped:
  "calculate_score_with_gemini (Some ''key'') (\<lambda>p. Inr (envelope score_text_900)) json_loads sample_profile
     = (Inr (JObject [(''yecs_score'', JInt 900), (''risk_level'', JString ''Low'')], 200), [])
   \<and> getitem (JObject [(''yecs_score'', JInt 900), (''risk_level'', JString ''Low'')]) ''yecs_score'' = Inr (JInt 900)
   \<and> \<not> (300 \<le> (900::int) \<and> (900::int) \<le> 850)"
proof -
  have "try_parse json_loads (envelope score_text_900)
      = Inr (JObject [(''yecs_score'', JInt 900), (''risk_level'', JString ''Low'')])"
    by (simp add: try_parse_def and_then_def response_text_envelope strip_900 clean_900 loads_900)
  then show ?thesis
    by (simp add: calculate_score_with_gemini_def call_gemini_api_def sample_profile_def py_in_envelope lookup_def)
qed




text \<open>
  An exception of the decoder that the \<open>except\<close> clause does not name leaves the endpoint
  as well: \<open>RecursionError\<close> on a text nested too deep, \<open>ValueError\<close> on an integer with
  too many digits. A text that the decoder accepts, \<open>NaN\<close> included, is answered with 200.
\<close>

lemma decoder_exception_not_caught:
  assumes "py_truthy user_data" and "key = Some k" and "k \<noteq> []"
    and "post (Score_prompt user_data) = Inr resp"
    and "py_in ''error'' resp = Inr False"
    and "response_text resp = Inr (JString t)"
    and "loads (cleaned_text (py_strip t)) = Inl e"
    and "\<not> caught e"
  shows "calculate_score_with_gemini key post loads user_data = (Inl e, [])"
proof -
  have call: "call_gemini_api key post (Score_prompt user_data) = resp"
    using assms(2,3,4) by (simp add: call_with_key)
  have "try_parse loads resp = Inl e"
    using assms(6,7) by (simp add: try_parse_def and_then_def)
  then show ?thesis
    using assms(1,5,8) call by (simp add: calculate_score_with_gemini_def)
qed

lemma deep_text_raises:
  "calculate_score_with_gemini (Some ''key'') (\<lambda>p. Inr (envelope t)) (\<lambda>s. Inl RecursionError) sample_profile
     = (Inl RecursionError, [])"
  by (rule decoder_exception_not_caught [where k = "''key''" and resp = "envelope t" and t = t])
     (simp_all add: sample_profile_def py_in_envelope response_text_envelope caught_def)

section \<open>Code fences around the candidate text\<close>

lemma py_replace_absent:
  "old \<noteq> [] \<Longrightarrow> \<not> has_sub old s \<Longrightarrow> py_replace old new s = s"
  by (induction s) auto

lemma py_replace_skip:
  "old \<noteq> [] \<Longrightarrow> \<not> startswith old (c # cs) \<Longrightarrow> py_replace old new (c # cs) = c # py_replace old new cs"
  by simp

lemma py_replace_prefix:
  "old \<noteq> [] \<Longrightarrow> py_replace old new (old @ s) = new @ py_replace old new s"
proof -
  assume "old \<noteq> []"
  moreover have "startswith old (old @ s)" by (induction old) auto
  ultimately show ?thesis by (cases old) auto
qed

lemma startswith_fence_short:
  "startswith ''```'' (c # cs @ ''```'') \<Longrightarrow> \<not> startswith ''```'' (c # cs) \<Longrightarrow>
     c # cs = ''`'' \<or> c # cs = ''``''"
  by (cases cs; cases "tl cs") auto

lemma no_json_fence_inside:
  "\<not> has_sub ''```'' y \<Longrightarrow> \<not> has_sub ''```json'' (y @ ''```'')"
proof (induction y)
  case Nil
  show ?case by simp
next
  case (Cons c cs)
  then have a: "\<not> startswith ''```'' (c # cs)" and b: "\<not> has_sub ''```json'' (cs @ ''```'')"
    by simp_all
  have "\<not> startswith ''```json'' (c # cs @ ''```'')"
    using a by (cases cs; cases "tl cs") auto
  with b show ?case by simp
qed

lemma closing_fence_removed:
  "\<not> has_sub ''```'' y \<Longrightarrow> py_replace ''```'' [] (y @ ''```'') = y"
proof (induction y)
  case Nil
  show ?case by simp
next
  case (Cons c cs)
  then have a: "\<not> startswith ''```'' (c # cs)" and ih: "py_replace ''```'' [] (cs @ ''```'') = cs"
    by simp_all
  show ?case
  proof (cases "startswith ''```'' (c # cs @ ''```'')")
    case True
    then have "c # cs = ''`'' \<or> c # cs = ''``''" using a by (rule startswith_fence_short)
    then show ?thesis
    proof
      assume "c # cs = ''`''"
      then show ?thesis by simp
    next
      assume "c # cs = ''``''"
      then show ?thesis by simp
    qed
  next
    case False
    have "py_replace ''```'' [] (c # cs @ ''```'') = c # py_replace ''```'' [] (cs @ ''```'')"
      by (rule py_replace_skip [OF _ False]) simp
    then show ?thesis by (simp only: append_Cons ih)
  qed
qed

lemma py_strip_fenced: "py_strip (fenced inner) = fenced inner"
  by (simp add: py_strip_def py_space_def fenced_def)

lemma cleaned_text_fenced:
  assumes "\<not> has_sub ''```'' inner"
  shows "cleaned_text (fenced inner) = inner"
proof -
  have "py_replace ''```json'' [] (fenced inner) = [] @ py_replace ''```json'' [] (inner @ ''```'')"
    unfolding fenced_def by (rule py_replace_prefix) simp
  also have "py_replace ''```json'' [] (inner @ ''```'') = inner @ ''```''"
    by (rule py_replace_absent [OF _ no_json_fence_inside [OF assms]]) simp
  finally have "py_replace ''```json'' [] (fenced inner) = inner @ ''```''"
    by (simp only: append_Nil)
  then show ?thesis
    unfolding cleaned_text_def by (simp only: closing_fence_removed [OF assms])
qed

text \<open>
  C5, as the code has it. When the candidate text is \<open>```json\<close>, an inner text and
  \<open>```\<close>, and the inner text has no run of three backticks, cleaning leaves exactly the
  inner text, and the parsing step gives what decoding the inner text gives: the same value
  when it decodes, the same exception when it does not.
\<close>

theorem fenced_json_is_unwrapped:
  assumes "response_text resp = Inr (JString (fenced inner))"
    and "\<not> has_sub ''```'' inner"
  shows "cleaned_text (py_strip (fenced inner)) = inner
         \<and> try_parse loads resp = loads inner"
  by (simp add: try_parse_def and_then_def assms(1) py_strip_fenced cleaned_text_fenced [OF assms(2)])

lemma loads_720: "json_loads fenced_score_inner = Inr (JObject [(''yecs_score'', JInt 720)])"
  by (simp add: fenced_score_inner_def json_loads_def decode_text_def skip_ws_def json_ws_def digit_val_def)

lemma loads_backtick_inner: "json_loads backtick_inner = Inr (JObject [(''reasoning'', JString ''a```b'')])"
  by (simp add: backtick_inner_def json_loads_def decode_text_def skip_ws_def json_ws_def digit_val_def)

lemma cleaned_backtick: "cleaned_text (fenced backtick_inner) = backtick_cleaned"
  by (simp add: cleaned_text_def fenced_def backtick_inner_def backtick_cleaned_def)

lemma loads_backtick_cleaned: "json_loads backtick_cleaned = Inr (JObject [(''reasoning'', JString ''ab'')])"
  by (simp add: backtick_cleaned_def json_loads_def decode_text_def skip_ws_def json_ws_def digit_val_def)

theorem fenced_json_is_unwrapped_witness:
  "cleaned_text (py_strip (fenced fenced_score_inner)) = fenced_score_inner
   \<and> try_parse json_loads (envelope (fenced fenced_score_inner)) = Inr (JObject [(''yecs_score'', JInt 720)])"
proof -
  have h: "\<not> has_sub ''```'' fenced_score_inner"
    by (simp add: fenced_score_inner_def)
  show ?thesis
    using fenced_json_is_unwrapped [OF response_text_envelope h, of json_loads]
    by (simp add: loads_720)
qed


text \<open>
  Three backticks inside a string of the JSON text are removed with the fences: the value
  returned is not the value of the text between the fences.
\<close>

theorem fenced_backticks_change_object:
  "json_loads backtick_inner = Inr (JObject [(''reasoning'', JString ''a```b'')])
   \<and> try_parse json_loads (envelope (fenced backtick_inner))
       = Inr (JObject [(''reasoning'', JString ''ab'')])
   \<and> JObject [(''reasoning'', JString ''ab'')] \<noteq> JObject [(''reasoning'', JString ''a```b'')]"
  by (simp add: loads_backtick_inner try_parse_def and_then_def response_text_envelope
      py_strip_fenced cleaned_backtick loads_backtick_cleaned)

section \<open>The number of insights\<close>

text \<open>
  C7, as the code has it. \<open>getAIInsights\<close> returns one loan recommendation, one more when
  the score is at least 700 and one more when the cash flow exceeds 500, and one credit
  improvement, one more when the debt-to-income ratio exceeds 20. The insights endpoint
  answers 200 with the value the model's text decodes to, whatever entries it holds.
\<close>

theorem insights_counts:
  "length (loanRecommendations (getAIInsights sn ud))
      = 1 + (if score ud \<ge> 700 then 1 else 0) + (if gt (cashFlow ud) (Num 500) then 1 else 0)
   \<and> length (creditImprovements (getAIInsights sn ud))
      = 1 + (if gt (ToNumber sn (dti ud)) (Num 20) then 1 else 0)
   \<and> (py_truthy user_data \<and> key = Some k \<and> k \<noteq> [] \<and> post (Insights_prompt user_data) = Inr resp
        \<and> py_in ''error'' resp = Inr False \<and> response_text resp = Inr (JString t)
        \<and> loads (cleaned_text (py_strip t)) = Inr payload
      \<longrightarrow> get_ai_insights_from_gemini key post loads user_data = (Inr (payload, 200), []))"
proof (intro conjI impI)
  show "length (loanRecommendations (getAIInsights sn ud))
      = 1 + (if score ud \<ge> 700 then 1 else 0) + (if gt (cashFlow ud) (Num 500) then 1 else 0)"
    by (simp add: getAIInsights_def)
  show "length (creditImprovements (getAIInsights sn ud))
      = 1 + (if gt (ToNumber sn (dti ud)) (Num 20) then 1 else 0)"
    by (simp add: getAIInsights_def)
next
  assume a: "py_truthy user_data \<and> key = Some k \<and> k \<noteq> [] \<and> post (Insights_prompt user_data) = Inr resp
        \<and> py_in ''error'' resp = Inr False \<and> response_text resp = Inr (JString t)
        \<and> loads (cleaned_text (py_strip t)) = Inr payload"
  then have call: "call_gemini_api key post (Insights_prompt user_data) = resp"
    by (simp add: call_with_key)
  have "try_parse loads resp = Inr payload"
    using a by (simp add: try_parse_def and_then_def)
  then show "get_ai_insights_from_gemini key post loads user_data = (Inr (payload, 200), [])"
    using a call by (simp add: get_ai_insights_from_gemini_def)
qed

lemma loads_insights_empty:
  "json_loads insights_text_empty
     = Inr (JObject [(''marketAlert'', JString ''m''), (''loanRecommendations'', JArray []), (''creditImprovements'', JArray [])])"
  by (simp add: insights_text_empty_def json_loads_def decode_text_def skip_ws_def json_ws_def digit_val_def)

lemma clean_insights_empty: "cleaned_text (py_strip insights_text_empty) = insights_text_empty"
  by (simp add: insights_text_empty_def py_strip_def py_space_def cleaned_text_def)

theorem insights_counts_witness:
  "length (loanRecommendations (getAIInsights (\<lambda>s. if s = ''10.00'' then Num 10 else NaN) modest_user)) = 1
   \<and> length (creditImprovements (getAIInsights (\<lambda>s. if s = ''10.00'' then Num 10 else NaN) modest_user)) = 1
   \<and> get_ai_insights_from_gemini (Some ''key'') (\<lambda>p. Inr (envelope insights_text_empty)) json_loads sample_profile
      = (Inr (JObject [(''marketAlert'', JString ''m''), (''loanRecommendations'', JArray []),
                       (''creditImprovements'', JArray [])], 200), [])"
  using insights_counts [of "\<lambda>s. if s = ''10.00'' then Num 10 else NaN" modest_user sample_profile "Some ''key''" "''key''"
      "\<lambda>p. Inr (envelope insights_text_empty)" "envelope insights_text_empty" insights_text_empty json_loads
      "JObject [(''marketAlert'', JString ''m''), (''loanRecommendations'', JArray []), (''creditImprovements'', JArray [])]"]
  by (simp add: modest_user_def sample_profile_def py_in_envelope response_text_envelope
      clean_insights_empty loads_insights_empty)

text \<open>
  A user with score 450, cash flow 200 and ratio 10 gets one recommendation and one
  improvement; a model payload with empty lists is returned as it is.
\<close>

theorem insights_not_three_and_two:
  "\<not> (length (loanRecommendations (getAIInsights (\<lambda>s. if s = ''10.00'' then Num 10 else NaN) modest_user)) = 3
      \<and> length (creditImprovements (getAIInsights (\<lambda>s. if s = ''10.00'' then Num 10 else NaN) modest_user)) = 2)
   \<and> get_ai_insights_from_gemini (Some ''key'') (\<lambda>p. Inr (envelope insights_text_empty)) json_loads sample_profile
      = (Inr (JObject [(''marketAlert'', JString ''m''), (''loanRecommendations'', JArray []),
                       (''creditImprovements'', JArray [])], 200), [])"
proof -
  have "try_parse json_loads (envelope insights_text_empty)
     = Inr (JObject [(''marketAlert'', JString ''m''), (''loanRecommendations'', JArray []), (''creditImprovements'', JArray [])])"
    by (simp add: try_parse_def and_then_def response_text_envelope clean_insights_empty loads_insights_empty)
  then show ?thesis
    by (simp add: getAIInsights_def modest_user_def get_ai_insights_from_gemini_def call_gemini_api_def
        sample_profile_def py_in_envelope)
qed

section \<open>Submitting the financials in the gateway variant\<close>

text \<open>
  C9. When the \<open>try\<close> block of \<open>handleSubmit\<close> throws, the page and the stored score
  stay what they were and the error is shown; when it does not, the page becomes the score page
  and the stored score is the result. A rejected request, a status outside 200 to 299 and a
  result with a truthy \<open>error\<close> each make it throw, and it returns a result only for a
  response with a status from 200 to 299 whose body parsed to that result.
\<close>

theorem handleSubmit_failure_keeps_page:
  "(\<forall>err. submit_try outcome = Inl err \<longrightarrow>
       page (FinancialDataPage_handleSubmit localData outcome s) = page s
       \<and> scoreData (FinancialDataPage_handleSubmit localData outcome s) = scoreData s
       \<and> alerts (FinancialDataPage_handleSubmit localData outcome s) = alerts s @ [err])
   \<and> (\<forall>result. submit_try outcome = Inr result \<longrightarrow>
       page (FinancialDataPage_handleSubmit localData outcome s) = Score_page
       \<and> scoreData (FinancialDataPage_handleSubmit localData outcome s) = Some result
       \<and> alerts (FinancialDataPage_handleSubmit localData outcome s) = alerts s)
   \<and> (\<forall>msg. outcome = Rejected msg \<longrightarrow> submit_try outcome = Inl (Fetch_rejected msg))
   \<and> (\<forall>status text body. outcome = Response status text body \<and> \<not> response_ok status
         \<longrightarrow> submit_try outcome = Inl (Bad_status status text))
   \<and> (\<forall>status text result e. outcome = Response status text (Some result) \<and> response_ok status
           \<and> js_member result ''error'' = Value e \<and> js_truthy e
         \<longrightarrow> submit_try outcome = Inl (Error_payload e))
   \<and> (\<forall>result. submit_try outcome = Inr result \<longrightarrow>
         (\<exists>status text. outcome = Response status text (Some result) \<and> response_ok status))"
proof (intro conjI allI impI)
  fix result
  assume "submit_try outcome = Inr result"
  then show "\<exists>status text. outcome = Response status text (Some result) \<and> response_ok status"
    by (auto simp: submit_try_def split: fetch_outcome.splits if_splits option.splits js_read.splits)
qed (auto simp: FinancialDataPage_handleSubmit_def submit_try_def Let_def)

theorem handleSubmit_failure_keeps_page_witness:
  "page (FinancialDataPage_handleSubmit Map.empty (Response 500 error_result_text (Some error_result)) at_financials) = Financials_page
   \<and> scoreData (FinancialDataPage_handleSubmit Map.empty (Response 500 error_result_text (Some error_result)) at_financials) = None
   \<and> alerts (FinancialDataPage_handleSubmit Map.empty (Response 500 error_result_text (Some error_result)) at_financials) = [Bad_status 500 error_result_text]
   \<and> page (FinancialDataPage_handleSubmit Map.empty (Rejected ''Failed to fetch'') at_financials) = Financials_page
   \<and> page (FinancialDataPage_handleSubmit Map.empty (Response 200 error_result_text (Some error_result)) at_financials) = Financials_page
   \<and> page (FinancialDataPage_handleSubmit Map.empty (Response 200 score_result_text (Some score_result_720)) at_financials) = Score_page
   \<and> scoreData (FinancialDataPage_handleSubmit Map.empty (Response 200 score_result_text (Some score_result_720)) at_financials) = Some score_result_720"
  using handleSubmit_failure_keeps_page [of "Response 500 error_result_text (Some error_result)" Map.empty at_financials]
    handleSubmit_failure_keeps_page [of "Rejected ''Failed to fetch''" Map.empty at_financials]
    handleSubmit_failure_keeps_page [of "Response 200 error_result_text (Some error_result)" Map.empty at_financials]
    handleSubmit_failure_keeps_page [of "Response 200 score_result_text (Some score_result_720)" Map.empty at_financials]
  by (simp add: submit_try_def response_ok_def error_result_def score_result_720_def lookup_def at_financials_def)


end
